theory Spec2Isabelle
  imports Complex_Main "HOL-Library.Char_ord" "HOL-Library.List_Lexorder"
begin

section \<open>Data model\<close>

text \<open>
  The dashboard keeps its activity log in \<^verbatim>\<open>data/activity_log.csv\<close> with the columns
  \<^verbatim>\<open>Date, Category, Hours\<close> and reads it into a pandas DataFrame.

  \<^item> A value of the \<^verbatim>\<open>Date\<close> column after \<^verbatim>\<open>pd.to_datetime\<close> is a midnight timestamp,
    since the program writes dates without a time of day; it is modelled as the number
    of days since 1970-01-01 (a Thursday). A time of day in a file edited by hand is not
    modelled. In a frame that \<^verbatim>\<open>load_data\<close> returns the date of a row can be missing
    (pandas' NaT); such a frame has rows of type \<open>loaded_row\<close>, with an optional date.
    The aggregation is stated for rows that have their date, of type \<open>row\<close>.
  \<^item> \<^verbatim>\<open>Category\<close> is a Python string, modelled as its UTF-8 bytes. The lexicographic
    order of the bytes is the code point order Python compares strings with.
  \<^item> \<^verbatim>\<open>Hours\<close> is a Python float, modelled as a real number. The sums of
    \<^verbatim>\<open>get_time_summary\<close> are modelled twice: exactly, without rounding, and in float64,
    with every addition rounded to the nearest double.
  \<^item> The cells \<^verbatim>\<open>Category\<close> and \<^verbatim>\<open>Hours\<close> of a row are present: a missing value (NaN)
    in these two columns is not modelled.
\<close>

type_synonym date = int

record 'd activity =
  Date :: 'd
  Category :: string
  Hours :: real

type_synonym row = "date activity"

type_synonym loaded_row = "date option activity"

section \<open>Aggregation: \<^verbatim>\<open>get_time_summary\<close> and the period tabs\<close>

text \<open>
  \<^verbatim>\<open>df_filtered.groupby('Category')['Hours'].sum().reset_index()\<close>:
  pandas' \<^verbatim>\<open>groupby\<close> is called with its default \<^verbatim>\<open>sort=True\<close>, so the result has one
  row per distinct key, the keys in ascending order, each with the sum of the \<^verbatim>\<open>Hours\<close>
  of the rows carrying that key. The sums of this section are exact; the section on
  float64 below has the same function with rounded sums.
\<close>

definition group_Hours :: "row list \<Rightarrow> string \<Rightarrow> real" where
  "group_Hours df k = sum_list (map Hours (filter (\<lambda>r. Category r = k) df))"

definition groupby_Category_Hours_sum :: "row list \<Rightarrow> (string \<times> real) list" where
  "groupby_Category_Hours_sum df =
     map (\<lambda>k. (k, group_Hours df k)) (sort (remdups (map Category df)))"

text \<open>\<^verbatim>\<open>pd.DataFrame()\<close>, the frame without rows that \<^verbatim>\<open>get_time_summary\<close> returns for
  "no data"; \<^verbatim>\<open>time_summary.empty\<close> is the test the caller applies to it.\<close>

definition empty_DataFrame :: "(string \<times> real) list" where
  "empty_DataFrame = []"

definition get_time_summary :: "row list \<Rightarrow> (string \<times> real) list \<times> real" where
  "get_time_summary df_filtered =
     (if df_filtered = [] \<or> sum_list (map Hours df_filtered) = 0
      then (empty_DataFrame, 0)
      else (let time_summary = groupby_Category_Hours_sum df_filtered;
                total_hours = sum_list (map snd time_summary)
            in (time_summary, total_hours)))"

text \<open>The four period tabs of \<^verbatim>\<open>date_ranges\<close>, in the order of the dictionary.\<close>

datatype tab_name = Last_7_days | Last_30_days | Last_5_months | All_time

text \<open>\<^verbatim>\<open>df[mask]\<close>: the rows whose entry in the boolean mask is true, in the frame's order.\<close>

fun boolean_index :: "'a list \<Rightarrow> bool list \<Rightarrow> 'a list" where
  "boolean_index (r # rs) (b # bs) = (if b then r # boolean_index rs bs else boolean_index rs bs)"
| "boolean_index _ _ = []"

text \<open>\<^verbatim>\<open>df['Date'] >= start_date\<close>\<close>

definition Date_ge :: "row list \<Rightarrow> date \<Rightarrow> bool list" where
  "Date_ge df start_date = map (\<lambda>r. start_date \<le> Date r) df"

text \<open>\<^verbatim>\<open>df[df['Date'] >= start_date].copy()\<close>\<close>

definition filter_from :: "row list \<Rightarrow> date \<Rightarrow> row list" where
  "filter_from df start_date = boolean_index df (Date_ge df start_date)"

text \<open>The body of the loop over \<^verbatim>\<open>date_ranges\<close>: the "all time" tab takes a copy of the
  whole frame, every other tab filters by its start date.\<close>

definition df_filtered :: "tab_name \<Rightarrow> date \<Rightarrow> row list \<Rightarrow> row list" where
  "df_filtered tab start_date df =
     (if tab = All_time then df else filter_from df start_date)"


section \<open>Sums in float64\<close>

text \<open>
  A double has a mantissa of 53 bits. \<open>float64 x\<close> is the double nearest to \<open>x\<close>, with ties
  going to the even mantissa: \<open>\<bar>x\<bar>\<close> is scaled by powers of two until it lies between
  \<open>2 ^ 52\<close> and \<open>2 ^ 53\<close>, rounded to an integer and scaled back. Overflow to infinity
  and the coarser spacing of subnormal numbers are not modelled.
\<close>

function scale_up :: "real \<Rightarrow> int \<Rightarrow> real \<times> int" where
  "scale_up y e = (if 0 < y \<and> y < 4503599627370496 then scale_up (2 * y) (e - 1) else (y, e))"
  by pat_completeness auto
termination
proof (relation "measure (\<lambda>(y, e). nat \<lceil>4503599627370496 / y\<rceil>)")
  show "wf (measure (\<lambda>(y, e). nat \<lceil>4503599627370496 / y\<rceil>))" by simp
next
  fix y :: real and e :: int
  assume a: "0 < y \<and> y < 4503599627370496"
  define x where "x = 4503599627370496 / y"
  have x1: "1 < x" using a by (simp add: x_def)
  have "\<lceil>x / 2\<rceil> < \<lceil>x\<rceil>"
  proof -
    have "x \<le> of_int \<lceil>x\<rceil>" by simp
    moreover have "2 \<le> \<lceil>x\<rceil>" using x1 by linarith
    then have "(2::real) \<le> of_int \<lceil>x\<rceil>" by linarith
    ultimately have "x / 2 \<le> of_int \<lceil>x\<rceil> - 1" by linarith
    then have "x / 2 \<le> of_int (\<lceil>x\<rceil> - 1)" by simp
    then have "\<lceil>x / 2\<rceil> \<le> \<lceil>x\<rceil> - 1" by (simp only: ceiling_le_iff)
    then show ?thesis by simp
  qed
  moreover have "4503599627370496 / (2 * y) = x / 2" by (simp add: x_def)
  moreover have "0 < \<lceil>x\<rceil>" using x1 by linarith
  ultimately show "((2 * y, e - 1), (y, e)) \<in> measure (\<lambda>(y, e). nat \<lceil>4503599627370496 / y\<rceil>)"
    by (simp add: x_def)
qed

function scale_down :: "real \<Rightarrow> int \<Rightarrow> real \<times> int" where
  "scale_down y e = (if 9007199254740992 \<le> y then scale_down (y / 2) (e + 1) else (y, e))"
  by pat_completeness auto
termination
proof (relation "measure (\<lambda>(y, e). nat \<lfloor>y\<rfloor>)")
  show "wf (measure (\<lambda>(y, e). nat \<lfloor>y\<rfloor>))" by simp
next
  fix y :: real and e :: int
  assume a: "9007199254740992 \<le> y"
  have "\<lfloor>y / 2\<rfloor> < \<lfloor>y\<rfloor>"
  proof -
    have "y / 2 < y - 1" using a by simp
    also have "\<dots> < of_int \<lfloor>y\<rfloor>" by linarith
    finally show ?thesis by (simp add: floor_less_iff)
  qed
  moreover have "0 < \<lfloor>y\<rfloor>" using a by linarith
  ultimately show "((y / 2, e + 1), (y, e)) \<in> measure (\<lambda>(y, e). nat \<lfloor>y\<rfloor>)"
    by simp
qed

declare scale_up.simps [simp del] scale_down.simps [simp del]

definition mantissa_exponent :: "real \<Rightarrow> real \<times> int" where
  "mantissa_exponent a = (case scale_up a 0 of (y, e) \<Rightarrow> scale_down y e)"

definition round_half_even :: "real \<Rightarrow> int" where
  "round_half_even y =
     (if y - of_int \<lfloor>y\<rfloor> < 1 / 2 then \<lfloor>y\<rfloor>
      else if 1 / 2 < y - of_int \<lfloor>y\<rfloor> then \<lfloor>y\<rfloor> + 1
      else if even \<lfloor>y\<rfloor> then \<lfloor>y\<rfloor> else \<lfloor>y\<rfloor> + 1)"

definition times_2_to :: "int \<Rightarrow> int \<Rightarrow> real" where
  "times_2_to m e = (if 0 \<le> e then of_int m * 2 ^ nat e else of_int m / 2 ^ nat (- e))"

definition float64 :: "real \<Rightarrow> real" where
  "float64 x =
     (case mantissa_exponent \<bar>x\<bar> of
        (y, e) \<Rightarrow> (if x < 0 then - times_2_to (round_half_even y) e
                   else times_2_to (round_half_even y) e))"

definition fadd :: "real \<Rightarrow> real \<Rightarrow> real" where
  "fadd x y = float64 (x + y)"

definition fsub :: "real \<Rightarrow> real \<Rightarrow> real" where
  "fsub x y = float64 (x - y)"

text \<open>\<^verbatim>\<open>Series.sum()\<close> adds the values of a column in their order, starting from 0. This
  is the order of numpy for a column of fewer than eight values; for a longer column
  numpy adds in blocks, which is not modelled.\<close>

definition sum_float64 :: "real list \<Rightarrow> real" where
  "sum_float64 xs = foldl fadd 0 xs"

text \<open>The sum of one group in \<^verbatim>\<open>groupby(...).sum()\<close>: pandas adds the values of the group
  in the order of the frame with a running compensation term (Kahan summation).\<close>

fun kahan :: "real \<Rightarrow> real \<Rightarrow> real list \<Rightarrow> real" where
  "kahan sumx compensation [] = sumx"
| "kahan sumx compensation (val # vals) =
     kahan (fadd sumx (fsub val compensation))
       (fsub (fsub (fadd sumx (fsub val compensation)) sumx) (fsub val compensation)) vals"

definition group_sum_float64 :: "real list \<Rightarrow> real" where
  "group_sum_float64 xs = kahan 0 0 xs"

text \<open>\<^verbatim>\<open>get_time_summary\<close> with the two summation routines as parameters: \<open>Series_sum\<close> for
  the two calls of \<^verbatim>\<open>Series.sum()\<close> and \<open>group_sum\<close> for the sum of a group. With exact
  sums for both it is \<open>get_time_summary\<close> above; with the float64 sums it is the function
  as pandas computes it.\<close>

definition get_time_summary_with ::
  "(real list \<Rightarrow> real) \<Rightarrow> (real list \<Rightarrow> real) \<Rightarrow> row list \<Rightarrow> (string \<times> real) list \<times> real" where
  "get_time_summary_with Series_sum group_sum df =
     (if df = [] \<or> Series_sum (map Hours df) = 0
      then (empty_DataFrame, 0)
      else (let time_summary =
                  map (\<lambda>k. (k, group_sum (map Hours (filter (\<lambda>r. Category r = k) df))))
                    (sort (remdups (map Category df)));
                total_hours = Series_sum (map snd time_summary)
            in (time_summary, total_hours)))"

definition get_time_summary_float64 :: "row list \<Rightarrow> (string \<times> real) list \<times> real" where
  "get_time_summary_float64 df =
     get_time_summary_with sum_float64 group_sum_float64 df"



section \<open>The weekly series: \<^verbatim>\<open>create_line_chart\<close>\<close>

text \<open>
  \<^verbatim>\<open>df_data.set_index('Date')['Hours'].resample('W').sum().reset_index()\<close>:
  \<^verbatim>\<open>'W'\<close> is pandas' weekly frequency anchored on Sunday, with bins closed and labelled on
  the right. A bin is the calendar week from Monday to Sunday and carries the date of
  its Sunday. The bins run from the week of the earliest date to the week of the latest
  date without a gap, and \<^verbatim>\<open>sum\<close> of a bin without rows is 0.
\<close>

text \<open>The Sunday on or after a day. Day 0 is Thursday 1970-01-01, so the Sundays are the
  days \<open>d\<close> with \<open>d mod 7 = 3\<close>.\<close>

definition week_end :: "date \<Rightarrow> date" where
  "week_end d = d + (3 - d) mod 7"

definition week_labels :: "date \<Rightarrow> date \<Rightarrow> date list" where
  "week_labels w0 w1 = map (\<lambda>k. w0 + 7 * int k) [0 ..< nat ((w1 - w0) div 7 + 1)]"

definition week_Hours :: "row list \<Rightarrow> date \<Rightarrow> real" where
  "week_Hours df w = sum_list (map Hours (filter (\<lambda>r. w - 7 < Date r \<and> Date r \<le> w) df))"

definition resample_W_Hours_sum :: "row list \<Rightarrow> (date \<times> real) list" where
  "resample_W_Hours_sum df =
     (if df = [] then []
      else map (\<lambda>w. (w, week_Hours df w))
             (week_labels (week_end (Min (set (map Date df)))) (week_end (Max (set (map Date df))))))"

text \<open>The frame \<^verbatim>\<open>df_weekly\<close> that \<^verbatim>\<open>create_line_chart\<close> plots, one point per row.\<close>

definition df_weekly :: "row list \<Rightarrow> (date \<times> real) list" where
  "df_weekly df_data = resample_W_Hours_sum df_data"

text \<open>The weekly series as the specification words it, for comparison: one point for each
  week that holds at least one record, in chronological order, and no point for any
  other week.\<close>

definition weekly_series_without_gaps_filled :: "row list \<Rightarrow> (date \<times> real) list" where
  "weekly_series_without_gaps_filled df =
     map (\<lambda>w. (w, sum_list (map Hours (filter (\<lambda>r. week_end (Date r) = w) df))))
       (sort (remdups (map (\<lambda>r. week_end (Date r)) df)))"

section \<open>Dates as text\<close>

text \<open>
  The date that \<^verbatim>\<open>st.date_input\<close> returns is a \<^verbatim>\<open>datetime.date\<close>: a year, a month and a
  day. \<^verbatim>\<open>new_date.strftime('%Y-%m-%d')\<close> writes them with four, two and two digits.
\<close>

record datetime_date =
  year :: int
  month :: int
  day :: int

definition digit :: "int \<Rightarrow> char" where
  "digit n = ''0123456789'' ! nat (n mod 10)"

definition two_digits :: "int \<Rightarrow> string" where
  "two_digits n = [digit (n div 10), digit n]"

definition four_digits :: "int \<Rightarrow> string" where
  "four_digits n = [digit (n div 1000), digit (n div 100), digit (n div 10), digit n]"

definition strftime_Y_m_d :: "datetime_date \<Rightarrow> string" where
  "strftime_Y_m_d new_date =
     four_digits (year new_date) @ ''-'' @ two_digits (month new_date) @ ''-''
       @ two_digits (day new_date)"

text \<open>
  The midnight timestamp of a date is its day number. The conversion between day numbers
  and the proleptic Gregorian calendar counts days in eras of 400 years that start on
  1 March.
\<close>

definition days_from_civil :: "int \<Rightarrow> int \<Rightarrow> int \<Rightarrow> int" where
  "days_from_civil y0 m d =
     (let y = (if m \<le> 2 then y0 - 1 else y0);
          era = y div 400;
          yoe = y - era * 400;
          mp = (if 2 < m then m - 3 else m + 9);
          doy = (153 * mp + 2) div 5 + d - 1;
          doe = yoe * 365 + yoe div 4 - yoe div 100 + doy
      in era * 146097 + doe - 719468)"

definition civil_from_days :: "int \<Rightarrow> int \<times> int \<times> int" where
  "civil_from_days t =
     (let z = t + 719468;
          era = z div 146097;
          doe = z - era * 146097;
          yoe = (doe - doe div 1460 + doe div 36524 - doe div 146096) div 365;
          doy = doe - (365 * yoe + yoe div 4 - yoe div 100);
          mp = (5 * doy + 2) div 153;
          d = doy - (153 * mp + 2) div 5 + 1;
          m = (if mp < 10 then mp + 3 else mp - 9);
          y = yoe + era * 400 + (if m \<le> 2 then 1 else 0)
      in (y, m, d))"

definition Timestamp_of :: "datetime_date \<Rightarrow> date" where
  "Timestamp_of new_date = days_from_civil (year new_date) (month new_date) (day new_date)"

text \<open>\<^verbatim>\<open>to_csv\<close> writes a midnight timestamp as the text of its date.\<close>

definition Timestamp_text :: "date \<Rightarrow> string" where
  "Timestamp_text t =
     (case civil_from_days t of (y, m, d) \<Rightarrow> strftime_Y_m_d \<lparr>year = y, month = m, day = d\<rparr>)"

definition days_in_month :: "int \<Rightarrow> int \<Rightarrow> int" where
  "days_in_month y m =
     (if m = 2
      then (if y mod 400 = 0 then 29 else if y mod 100 = 0 then 28 else if y mod 4 = 0 then 29 else 28)
      else if m = 4 \<or> m = 6 \<or> m = 9 \<or> m = 11 then 30 else 31)"

text \<open>The dates of the calendar in the years 1678 to 2261, the years that lie whole in the
  range of a pandas timestamp with nanosecond resolution.\<close>

definition valid_date :: "datetime_date \<Rightarrow> bool" where
  "valid_date new_date =
     (1678 \<le> year new_date \<and> year new_date \<le> 2261
      \<and> 1 \<le> month new_date \<and> month new_date \<le> 12
      \<and> 1 \<le> day new_date \<and> day new_date \<le> days_in_month (year new_date) (month new_date))"

text \<open>
  \<^verbatim>\<open>pd.to_datetime(df['Date'], format='mixed')\<close> infers the format of every cell on its
  own and raises when the text of a cell has none. Which texts pandas can read is not
  decided by this program, so the reader of one text is a parameter \<open>parse\<close> of the
  operations below: \<open>parse s = None\<close> means that \<^verbatim>\<open>to_datetime\<close> raises on \<open>s\<close>.

  \<open>to_datetime_Y_m_d\<close> is the reader restricted to the one format the program itself
  writes, \<^verbatim>\<open>YYYY-MM-DD\<close>, and to the years 1678 to 2261. pandas reads every text that
  \<open>to_datetime_Y_m_d\<close> reads, and reads it as the same date.
\<close>

definition digit_value :: "char \<Rightarrow> int option" where
  "digit_value c = map_of (zip ''0123456789'' [0, 1, 2, 3, 4, 5, 6, 7, 8, 9]) c"

fun number_from :: "int \<Rightarrow> string \<Rightarrow> int option" where
  "number_from acc [] = Some acc"
| "number_from acc (c # cs) =
     (case digit_value c of None \<Rightarrow> None | Some v \<Rightarrow> number_from (10 * acc + v) cs)"

definition to_datetime_Y_m_d :: "string \<Rightarrow> date option" where
  "to_datetime_Y_m_d s =
     (if length s = 10 \<and> s ! 4 = CHR ''-'' \<and> s ! 7 = CHR ''-''
      then (case (number_from 0 (take 4 s), number_from 0 (take 2 (drop 5 s)), number_from 0 (drop 8 s)) of
              (Some y, Some m, Some d) \<Rightarrow>
                (if valid_date \<lparr>year = y, month = m, day = d\<rparr>
                 then Some (days_from_civil y m d) else None)
            | _ \<Rightarrow> None)
      else None)"

section \<open>The log store\<close>

text \<open>
  A data row of the file as \<^verbatim>\<open>pd.read_csv\<close> returns it. The date is still text, and it
  is \<open>None\<close> for a cell that \<^verbatim>\<open>read_csv\<close> takes as missing (NaN): an empty cell, or one of
  the texts pandas reads as a missing value. The file is \<open>None\<close> while
  \<^verbatim>\<open>data/activity_log.csv\<close> does not exist, and otherwise the list of its data rows in
  the order of the file.
\<close>

record raw_row =
  raw_Date :: "string option"
  raw_Category :: string
  raw_Hours :: real

type_synonym csv_file = "raw_row list option"

text \<open>A DataFrame is the list of its rows, each with its index label.\<close>

type_synonym 'a DataFrame = "(nat \<times> 'a) list"

text \<open>\<^verbatim>\<open>pd.read_csv\<close> labels the rows 0, 1, 2, ... in the order of the file; \<open>None\<close> is its
  \<^verbatim>\<open>FileNotFoundError\<close>.\<close>

definition read_csv :: "csv_file \<Rightarrow> raw_row DataFrame option" where
  "read_csv file = map_option (enumerate 0) file"

text \<open>\<^verbatim>\<open>pd.to_datetime\<close> on one cell: a missing cell becomes the missing date NaT and
  raises nothing; a text becomes its timestamp, or \<^verbatim>\<open>to_datetime\<close> raises (the outer
  \<open>None\<close>).\<close>

definition to_datetime_cell :: "(string \<Rightarrow> date option) \<Rightarrow> string option \<Rightarrow> date option option" where
  "to_datetime_cell parse cell =
     (case cell of
        None \<Rightarrow> Some None
      | Some s \<Rightarrow> (case parse s of None \<Rightarrow> None | Some t \<Rightarrow> Some (Some t)))"

text \<open>\<^verbatim>\<open>df['Date'] = pd.to_datetime(df['Date'], format='mixed')\<close>; \<open>None\<close> when
  \<^verbatim>\<open>to_datetime\<close> raises, which it does as soon as the text of one cell cannot be read.\<close>

fun to_datetime_mixed ::
  "(string \<Rightarrow> date option) \<Rightarrow> raw_row DataFrame \<Rightarrow> loaded_row DataFrame option" where
  "to_datetime_mixed parse [] = Some []"
| "to_datetime_mixed parse ((i, r) # df) =
     (case to_datetime_cell parse (raw_Date r) of
        None \<Rightarrow> None
      | Some d \<Rightarrow>
          (case to_datetime_mixed parse df of
             None \<Rightarrow> None
           | Some df' \<Rightarrow> Some ((i, \<lparr>Date = d, Category = raw_Category r, Hours = raw_Hours r\<rparr>) # df')))"

text \<open>The two handlers of \<^verbatim>\<open>load_data\<close>: each shows an error with \<^verbatim>\<open>st.error\<close> and ends the
  run of the script with \<^verbatim>\<open>st.stop()\<close>.\<close>

datatype stopped = File_not_found | Load_error

definition load_data :: "(string \<Rightarrow> date option) \<Rightarrow> csv_file \<Rightarrow> stopped + loaded_row DataFrame" where
  "load_data parse file =
     (case read_csv file of
        None \<Rightarrow> Inl File_not_found
      | Some df \<Rightarrow>
          (case to_datetime_mixed parse df of
             None \<Rightarrow> Inl Load_error
           | Some df' \<Rightarrow> Inr df'))"

text \<open>\<^verbatim>\<open>to_csv('data/activity_log.csv', index=False)\<close> replaces the file by the rows of the
  frame, without their labels. A frame whose dates are still text is written as it is;
  a frame whose dates are timestamps has them written as \<^verbatim>\<open>YYYY-MM-DD\<close>, and a missing
  date as an empty cell.\<close>

definition to_csv_raw :: "raw_row DataFrame \<Rightarrow> csv_file" where
  "to_csv_raw df = Some (map snd df)"

definition to_csv :: "loaded_row DataFrame \<Rightarrow> csv_file" where
  "to_csv df =
     Some (map (\<lambda>(i, r). \<lparr>raw_Date = map_option Timestamp_text (Date r),
                           raw_Category = Category r, raw_Hours = Hours r\<rparr>) df)"

text \<open>\<^verbatim>\<open>pd.concat([df, new_data], ignore_index=True)\<close>\<close>

definition concat_ignore_index :: "'a DataFrame \<Rightarrow> 'a DataFrame \<Rightarrow> 'a DataFrame" where
  "concat_ignore_index df1 df2 = enumerate 0 (map snd df1 @ map snd df2)"

subsection \<open>\<^verbatim>\<open>add_new_activity_form\<close>, submitted\<close>

datatype add_result = Csv_read_error | Added

definition add_new_activity_form ::
  "csv_file \<Rightarrow> datetime_date \<Rightarrow> string \<Rightarrow> real \<Rightarrow> csv_file \<times> add_result" where
  "add_new_activity_form file new_date new_category new_hours =
     (case read_csv file of
        None \<Rightarrow> (file, Csv_read_error)
      | Some df \<Rightarrow>
          (let new_data = [(0, \<lparr>raw_Date = Some (strftime_Y_m_d new_date),
                                raw_Category = new_category, raw_Hours = new_hours\<rparr>)];
               updated_df = concat_ignore_index df new_data
           in (to_csv_raw updated_df, Added)))"

subsection \<open>The raw data tab and \<^verbatim>\<open>delete_form\<close>, submitted\<close>

text \<open>\<^verbatim>\<open>df.sort_values('Date', ascending=False)\<close>: the rows by descending date, each
  keeping its label, and the rows without a date after them. The model keeps rows of
  equal date in their order; pandas' default sorting algorithm does not promise it, and
  no property below depends on it.\<close>

definition sort_values_Date_descending :: "loaded_row DataFrame \<Rightarrow> loaded_row DataFrame" where
  "sort_values_Date_descending df =
     sort_key (\<lambda>(i, r). case Date r of None \<Rightarrow> 0 | Some t \<Rightarrow> - t)
       (filter (\<lambda>(i, r). Date r \<noteq> None) df)
     @ filter (\<lambda>(i, r). Date r = None) df"

text \<open>\<^verbatim>\<open>df.reset_index(drop=True)\<close>: the same rows, labelled anew by their position.\<close>

definition reset_index_drop :: "'a DataFrame \<Rightarrow> 'a DataFrame" where
  "reset_index_drop df = enumerate 0 (map snd df)"

text \<open>\<^verbatim>\<open>df.drop(labels, axis=0)\<close> removes the rows that carry one of the labels; \<open>None\<close> is the
  \<^verbatim>\<open>KeyError\<close> it raises for a label that no row carries.\<close>

definition drop_labels :: "'a DataFrame \<Rightarrow> nat list \<Rightarrow> 'a DataFrame option" where
  "drop_labels df labels =
     (if list_all (\<lambda>l. l \<in> set (map fst df)) labels
      then Some (filter (\<lambda>(i, r). i \<notin> set labels) df)
      else None)"

text \<open>The script up to the raw data tab: \<open>df\<close> is the loaded frame sorted by date, and
  \<open>df_display\<close> is the table the user sees and picks positions from.\<close>

definition df_display :: "loaded_row DataFrame \<Rightarrow> loaded_row DataFrame" where
  "df_display df = reset_index_drop df"

text \<open>The sequence on display for a file: the loaded frame, sorted and relabelled.\<close>

definition displayed :: "(string \<Rightarrow> date option) \<Rightarrow> csv_file \<Rightarrow> stopped + loaded_row DataFrame" where
  "displayed parse file =
     map_sum id (\<lambda>loaded. df_display (sort_values_Date_descending loaded)) (load_data parse file)"

datatype delete_result = Stopped stopped | No_data | Nothing_selected | Key_error | Deleted nat

definition delete_form :: "(string \<Rightarrow> date option) \<Rightarrow> csv_file \<Rightarrow> nat list \<Rightarrow> csv_file \<times> delete_result" where
  "delete_form parse file indices_to_delete =
     (case load_data parse file of
        Inl e \<Rightarrow> (file, Stopped e)
      | Inr loaded \<Rightarrow>
          (let df = sort_values_Date_descending loaded in
           if df = [] then (file, No_data)
           else if indices_to_delete = [] then (file, Nothing_selected)
           else (case drop_labels df indices_to_delete of
                   None \<Rightarrow> (file, Key_error)
                 | Some df_final \<Rightarrow> (to_csv df_final, Deleted (length indices_to_delete)))))"

text \<open>The record sequence of a load: the rows without their labels.\<close>

definition records :: "stopped + loaded_row DataFrame \<Rightarrow> stopped + loaded_row list" where
  "records res = map_sum id (map snd) res"

text \<open>A row that has its date, as a row of a loaded frame.\<close>

definition loaded :: "row \<Rightarrow> loaded_row" where
  "loaded r = \<lparr>Date = Some (Date r), Category = Category r, Hours = Hours r\<rparr>"

text \<open>The row of a loaded frame that comes from a row of the file whose date text, if it
  has one, can be read.\<close>

definition loaded_from :: "(string \<Rightarrow> date option) \<Rightarrow> raw_row \<Rightarrow> loaded_row" where
  "loaded_from parse r =
     \<lparr>Date = (case raw_Date r of None \<Rightarrow> None | Some s \<Rightarrow> parse s),
      Category = raw_Category r, Hours = raw_Hours r\<rparr>"

text \<open>A row of the file with a date text on which \<^verbatim>\<open>to_datetime\<close> raises.\<close>

definition unreadable :: "(string \<Rightarrow> date option) \<Rightarrow> raw_row \<Rightarrow> bool" where
  "unreadable parse r = (case raw_Date r of None \<Rightarrow> False | Some s \<Rightarrow> parse s = None)"

text \<open>What the specification asks of a delete, for comparison: the elements of a sequence
  at the positions that were not selected, in their order.\<close>

definition at_positions_not_in :: "nat list \<Rightarrow> 'a list \<Rightarrow> 'a list" where
  "at_positions_not_in P S = map snd (filter (\<lambda>(i, x). i \<notin> set P) (enumerate 0 S))"

text \<open>The order of first appearance, as the specification words the order of the
  categories of a summary, for comparison.\<close>

fun order_of_first_appearance :: "'a list \<Rightarrow> 'a list" where
  "order_of_first_appearance [] = []"
| "order_of_first_appearance (x # xs) = x # removeAll x (order_of_first_appearance xs)"

section \<open>Example logs\<close>

text \<open>Three activities on 2024-01-01, 2024-01-03 and 2024-01-05 (the days 19723, 19725 and
  19727), as rows of a frame and as rows of the file.\<close>

definition jan_01 :: row where
  "jan_01 = \<lparr>Date = 19723, Category = ''A'', Hours = 2\<rparr>"

definition jan_03 :: row where
  "jan_03 = \<lparr>Date = 19725, Category = ''A'', Hours = 1\<rparr>"

definition jan_05 :: row where
  "jan_05 = \<lparr>Date = 19727, Category = ''B'', Hours = 3\<rparr>"

definition jan_log :: csv_file where
  "jan_log = Some
     [\<lparr>raw_Date = Some ''2024-01-01'', raw_Category = ''A'', raw_Hours = 2\<rparr>,
      \<lparr>raw_Date = Some ''2024-01-03'', raw_Category = ''A'', raw_Hours = 1\<rparr>,
      \<lparr>raw_Date = Some ''2024-01-05'', raw_Category = ''B'', raw_Hours = 3\<rparr>]"

text \<open>An activity on 2024-01-15 (day 19737), two weeks after the first one.\<close>

definition jan_15 :: row where
  "jan_15 = \<lparr>Date = 19737, Category = ''B'', Hours = 3\<rparr>"

text \<open>A file whose second row has a date text that \<open>to_datetime_Y_m_d\<close> cannot read.\<close>

definition broken_log :: csv_file where
  "broken_log = Some
     [\<lparr>raw_Date = Some ''2024-01-01'', raw_Category = ''A'', raw_Hours = 2\<rparr>,
      \<lparr>raw_Date = Some ''someday'', raw_Category = ''A'', raw_Hours = 1\<rparr>]"

text \<open>A file whose second row has an empty \<^verbatim>\<open>Date\<close> cell.\<close>

definition undated_log :: csv_file where
  "undated_log = Some
     [\<lparr>raw_Date = Some ''2024-01-01'', raw_Category = ''A'', raw_Hours = 2\<rparr>,
      \<lparr>raw_Date = None, raw_Category = ''A'', raw_Hours = 1\<rparr>]"


section \<open>Properties of the aggregation\<close>

lemma boolean_index_map: "boolean_index xs (map P xs) = filter P xs"
  by (induction xs) auto

lemma filter_from_eq_filter: "filter_from S start_date = filter (\<lambda>r. start_date \<le> Date r) S"
  by (simp add: filter_from_def Date_ge_def boolean_index_map)





lemma groupby_keys: "map fst (groupby_Category_Hours_sum df) = sort (remdups (map Category df))"
  by (simp add: groupby_Category_Hours_sum_def comp_def)

lemma get_time_summary_not_marker:
  "df \<noteq> [] \<Longrightarrow> sum_list (map Hours df) \<noteq> 0 \<Longrightarrow> fst (get_time_summary df) \<noteq> empty_DataFrame"
proof -
  assume "df \<noteq> []" and "sum_list (map Hours df) \<noteq> 0"
  then have "set (map fst (fst (get_time_summary df))) = set (map Category df)"
    by (simp add: get_time_summary_def Let_def groupby_keys)
  with \<open>df \<noteq> []\<close> show ?thesis
    by (auto simp: empty_DataFrame_def)
qed


text \<open>
  C7. The window filter keeps exactly the rows whose date is on or after the start date,
  the start date included and the rows in their order, and it returns no row for a
  frame without rows.
\<close>

theorem filter_from_inclusive_lower_bound:
  "filter_from S start_date = filter (\<lambda>r. start_date \<le> Date r) S
   \<and> filter_from [] start_date = []"
  by (simp add: filter_from_eq_filter)










lemma sum_float64_Nil: "sum_float64 [] = 0"
  by (simp add: sum_float64_def)

lemma get_time_summary_float64_groups:
  "snd (get_time_summary_float64 df) = sum_float64 (map snd (fst (get_time_summary_float64 df)))"
  by (simp add: get_time_summary_float64_def get_time_summary_with_def Let_def empty_DataFrame_def
      sum_float64_Nil)

lemma get_time_summary_with_exact:
  "get_time_summary_with sum_list sum_list df = get_time_summary df"
  by (simp add: get_time_summary_with_def get_time_summary_def groupby_Category_Hours_sum_def
      group_Hours_def)








text \<open>
  C9. For a frame without rows, and for a frame whose hours sum to zero,
  \<^verbatim>\<open>get_time_summary\<close> returns the empty frame \<^verbatim>\<open>pd.DataFrame()\<close> and the total 0.
\<close>

theorem empty_or_zero_gives_marker:
  assumes "S = [] \<or> sum_list (map Hours S) = 0"
  shows "get_time_summary S = (empty_DataFrame, 0)"
  using assms by (auto simp: get_time_summary_def)

theorem empty_or_zero_gives_marker_witness:
  "get_time_summary [] = (empty_DataFrame, 0)
   \<and> get_time_summary [\<lparr>Date = 19723, Category = ''A'', Hours = 0\<rparr>] = (empty_DataFrame, 0)"
proof -
  have h1: "([]::row list) = [] \<or> sum_list (map Hours []) = 0" by simp
  have h2: "[\<lparr>Date = 19723, Category = ''A'', Hours = 0\<rparr>] = []
            \<or> sum_list (map Hours [\<lparr>Date = 19723, Category = ''A'', Hours = 0\<rparr>]) = 0" by simp
  show ?thesis
    using empty_or_zero_gives_marker [OF h1] empty_or_zero_gives_marker [OF h2] by simp
qed

text \<open>
  C8, as the code has it. The categories of a summary are in strictly ascending order of
  their labels, each category once; when the hours do not sum to zero they are the
  categories of the rows.
\<close>

theorem summary_categories_ascending:
  assumes "sum_list (map Hours S) \<noteq> 0"
  shows "sorted_wrt (<) (map fst (fst (get_time_summary S)))
         \<and> set (map fst (fst (get_time_summary S))) = Category ` set S"
proof -
  from assms have "S \<noteq> []" by auto
  with assms have "map fst (fst (get_time_summary S)) = sort (remdups (map Category S))"
    by (simp add: get_time_summary_def Let_def groupby_keys)
  then show ?thesis
    by (simp add: strict_sorted_iff)
qed

theorem summary_categories_ascending_witness:
  "sum_list (map Hours [jan_05, jan_01]) \<noteq> 0
   \<and> sorted_wrt (<) (map fst (fst (get_time_summary [jan_05, jan_01])))
   \<and> set (map fst (fst (get_time_summary [jan_05, jan_01]))) = Category ` set [jan_05, jan_01]"
proof -
  have h: "sum_list (map Hours [jan_05, jan_01]) \<noteq> 0"
    by (simp add: jan_01_def jan_05_def)
  show ?thesis using h summary_categories_ascending [OF h] by simp
qed

text \<open>
  C8, as the specification states it, fails: for a frame whose first row has category B
  and whose second row has category A, the summary lists A before B, while B appears
  first.
\<close>

theorem summary_order_counterexample:
  "map fst (fst (get_time_summary [jan_05, jan_01])) = [''A'', ''B'']
   \<and> order_of_first_appearance (map Category [jan_05, jan_01]) = [''B'', ''A'']
   \<and> map fst (fst (get_time_summary [jan_05, jan_01]))
       \<noteq> order_of_first_appearance (map Category [jan_05, jan_01])"
  by code_simp

section \<open>Properties of the weekly series\<close>

lemma week_end_Sunday: "week_end d mod 7 = 3"
  by (simp add: week_end_def mod_add_right_eq)

lemma week_end_ge: "d \<le> week_end d"
  by (simp add: week_end_def)

lemma week_end_lt: "week_end d < d + 7"
  by (simp add: week_end_def)

lemma Sunday_diff:
  assumes a: "a mod 7 = (3::int)" and b: "b mod 7 = 3" and lt: "a < b + 7"
  shows "a \<le> b"
proof -
  have "(a - b) mod 7 = 0"
    using a b by (simp add: mod_diff_eq [symmetric] del: mod_diff_eq)
  then obtain q where q: "a - b = 7 * q"
    by (auto simp: mod_eq_0_iff_dvd)
  with lt have "q < 1" by simp
  with q show ?thesis by simp
qed

lemma week_end_least: "s mod 7 = 3 \<Longrightarrow> d \<le> s \<Longrightarrow> week_end d \<le> s"
  using Sunday_diff [OF week_end_Sunday, of s d] week_end_lt [of d] by simp

lemma week_end_mono: "d \<le> e \<Longrightarrow> week_end d \<le> week_end e"
  using week_end_least [OF week_end_Sunday, of d e] week_end_ge [of e] by simp

lemma week_end_unique: "w mod 7 = 3 \<Longrightarrow> d \<le> w \<Longrightarrow> w < d + 7 \<Longrightarrow> week_end d = w"
  using week_end_least [of w d] Sunday_diff [of w "week_end d"] week_end_Sunday [of d]
    week_end_ge [of d]
  by simp

lemma in_week_iff: "w mod 7 = 3 \<Longrightarrow> (w - 7 < d \<and> d \<le> w) = (week_end d = w)"
  using week_end_unique [of w d] week_end_ge [of d] week_end_lt [of d] by auto

lemma week_labels_sorted: "sorted_wrt (<) (week_labels w0 w1)"
  unfolding week_labels_def by (simp add: sorted_wrt_map sorted_wrt_iff_nth_less)

lemma week_labels_set:
  assumes "w0 mod 7 = 3" "w1 mod 7 = 3" "w0 \<le> w1"
  shows "set (week_labels w0 w1) = {w. w mod 7 = 3 \<and> w0 \<le> w \<and> w \<le> w1}"
proof (intro set_eqI iffI)
  fix w assume "w \<in> set (week_labels w0 w1)"
  then obtain k where k: "w = w0 + 7 * int k" "k < nat ((w1 - w0) div 7 + 1)"
    by (auto simp: week_labels_def)
  from k(2) have "int k \<le> (w1 - w0) div 7" by linarith
  then have "7 * int k \<le> 7 * ((w1 - w0) div 7)" by simp
  also have "\<dots> \<le> w1 - w0"
    using div_mult_mod_eq [of "w1 - w0" 7] pos_mod_sign [of 7 "w1 - w0"] by linarith
  finally have "w0 + 7 * int k \<le> w1" by simp
  moreover have "(w0 + 7 * int k) mod 7 = 3" using assms(1) by simp
  ultimately show "w \<in> {w. w mod 7 = 3 \<and> w0 \<le> w \<and> w \<le> w1}"
    using k(1) by simp
next
  fix w assume "w \<in> {w. w mod 7 = 3 \<and> w0 \<le> w \<and> w \<le> w1}"
  then have w: "w mod 7 = 3" "w0 \<le> w" "w \<le> w1" by auto
  have "(w - w0) mod 7 = 0"
    using w(1) assms(1) by (simp add: mod_diff_eq [symmetric] del: mod_diff_eq)
  then obtain q where q: "w - w0 = 7 * q"
    by (auto simp: mod_eq_0_iff_dvd)
  with w(2) have q0: "0 \<le> q" by simp
  have "q = (w - w0) div 7" using q by simp
  also have "\<dots> \<le> (w1 - w0) div 7" using w(3) by (intro zdiv_mono1) simp_all
  finally have "nat q < nat ((w1 - w0) div 7 + 1)" using q0 by linarith
  then have "nat q \<in> set [0 ..< nat ((w1 - w0) div 7 + 1)]" by simp
  moreover have "w = w0 + 7 * int (nat q)" using q q0 by simp
  ultimately have "w \<in> (\<lambda>k. w0 + 7 * int k) ` set [0 ..< nat ((w1 - w0) div 7 + 1)]"
    by (rule rev_image_eqI)
  then show "w \<in> set (week_labels w0 w1)"
    unfolding week_labels_def by (simp only: set_map)
qed

lemma df_weekly_labels:
  "df \<noteq> [] \<Longrightarrow>
   map fst (df_weekly df) =
     week_labels (week_end (Min (set (map Date df)))) (week_end (Max (set (map Date df))))"
  by (simp add: df_weekly_def resample_W_Hours_sum_def comp_def)

lemma first_week_le_last_week:
  assumes "df \<noteq> []"
  shows "week_end (Min (set (map Date df))) \<le> week_end (Max (set (map Date df)))"
proof -
  from assms obtain r where r: "r \<in> set df" by (cases df) auto
  then have "Min (set (map Date df)) \<le> Date r" and "Date r \<le> Max (set (map Date df))"
    by simp_all
  then have "Min (set (map Date df)) \<le> Max (set (map Date df))" by (rule order_trans)
  then show ?thesis by (rule week_end_mono)
qed

text \<open>
  C2, as the code has it. For a frame with at least one row the weekly series has one
  point for every Sunday from the week of the earliest date to the week of the latest
  date, in chronological order, whether or not the week holds a row; the value of a
  point is the sum of the hours of the rows whose week ends on that Sunday, which is 0
  for a week without rows.
\<close>

theorem weekly_series_has_every_week:
  assumes "S \<noteq> []"
  shows "sorted_wrt (<) (map fst (df_weekly S))
    \<and> set (map fst (df_weekly S)) =
        {w. w mod 7 = 3 \<and> week_end (Min (set (map Date S))) \<le> w
              \<and> w \<le> week_end (Max (set (map Date S)))}
    \<and> (\<forall>(w, v) \<in> set (df_weekly S).
          v = sum_list (map Hours (filter (\<lambda>r. week_end (Date r) = w) S)))"
proof -
  let ?w0 = "week_end (Min (set (map Date S)))" and ?w1 = "week_end (Max (set (map Date S)))"
  have labels: "map fst (df_weekly S) = week_labels ?w0 ?w1"
    using assms by (rule df_weekly_labels)
  have s: "set (week_labels ?w0 ?w1) = {w. w mod 7 = 3 \<and> ?w0 \<le> w \<and> w \<le> ?w1}"
    by (rule week_labels_set [OF week_end_Sunday week_end_Sunday first_week_le_last_week [OF assms]])
  have v: "\<forall>(w, v) \<in> set (df_weekly S).
             v = sum_list (map Hours (filter (\<lambda>r. week_end (Date r) = w) S))"
  proof (clarify)
    fix w v assume "(w, v) \<in> set (df_weekly S)"
    then have "w \<in> set (week_labels ?w0 ?w1)" and veq: "v = week_Hours S w"
      using assms by (auto simp: df_weekly_def resample_W_Hours_sum_def)
    then have "w mod 7 = 3" using s by simp
    then show "v = sum_list (map Hours (filter (\<lambda>r. week_end (Date r) = w) S))"
      by (simp add: veq week_Hours_def in_week_iff)
  qed
  show ?thesis
    using labels week_labels_sorted [of ?w0 ?w1] s v by simp
qed

theorem weekly_series_has_every_week_witness:
  "[jan_15, jan_01] \<noteq> []
   \<and> sorted_wrt (<) (map fst (df_weekly [jan_15, jan_01]))
   \<and> set (map fst (df_weekly [jan_15, jan_01])) =
        {w. w mod 7 = 3 \<and> week_end (Min (set (map Date [jan_15, jan_01]))) \<le> w
              \<and> w \<le> week_end (Max (set (map Date [jan_15, jan_01])))}"
proof -
  have h: "[jan_15, jan_01] \<noteq> []" by simp
  show ?thesis using h weekly_series_has_every_week [OF h] by blast
qed

text \<open>
  C2, as the specification states it, fails: with one activity on Monday 2024-01-01 and
  one on Monday 2024-01-15 the series has three points, and the middle one, for the week
  ending on Sunday 2024-01-14 (day 19736), is a week without any record, with the value 0.
\<close>

theorem weekly_series_gap_counterexample:
  "df_weekly [jan_15, jan_01] = [(19729, 2), (19736, 0), (19743, 3)]
   \<and> weekly_series_without_gaps_filled [jan_15, jan_01] = [(19729, 2), (19743, 3)]
   \<and> df_weekly [jan_15, jan_01] \<noteq> weekly_series_without_gaps_filled [jan_15, jan_01]"
  by code_simp

section \<open>Properties of the log store\<close>

text \<open>Reading back the digits that \<^verbatim>\<open>strftime\<close> writes.\<close>

lemma digit_value_digit: "digit_value (digit n) = Some (n mod 10)"
proof -
  define m where "m = n mod 10"
  have "0 \<le> m" "m < 10" by (simp_all add: m_def)
  then have "m = 0 \<or> m = 1 \<or> m = 2 \<or> m = 3 \<or> m = 4 \<or> m = 5 \<or> m = 6 \<or> m = 7 \<or> m = 8 \<or> m = 9"
    by arith
  then have "digit_value (''0123456789'' ! nat m) = Some m"
    by (elim disjE) (simp_all add: digit_value_def)
  then show ?thesis
    by (simp add: digit_def m_def)
qed

lemma small_div_mod:
  assumes "0 \<le> n" "n < 10 * k" "0 < k"
  shows "(n div k) mod 10 = n div (k::int)"
proof -
  have "0 \<le> n div k" using assms by (simp add: pos_imp_zdiv_nonneg_iff)
  moreover have "n div k < 10"
  proof -
    have "n div k * k + n mod k = n" by (rule div_mult_mod_eq)
    moreover have "0 \<le> n mod k" using assms(3) by (rule pos_mod_sign)
    ultimately have "n div k * k < 10 * k" using assms(2) by linarith
    then show ?thesis using assms(3) by (simp only: mult_less_cancel_right_pos)
  qed
  ultimately show ?thesis by (rule mod_pos_pos_trivial)
qed

lemma decimal_step: "(n::int) = 10 * (n div 10) + n mod 10"
  using div_mult_mod_eq [of n 10] by linarith

lemma decimal_combine:
  "a mod 10 = a \<Longrightarrow> b = 10 * a + bm \<Longrightarrow> c = 10 * b + cm \<Longrightarrow> n = 10 * c + nm \<Longrightarrow>
   10 * (10 * (10 * (a mod 10) + bm) + cm) + nm = (n::int)"
  by simp

lemma number_from_two_digits:
  assumes "0 \<le> n" "n < 100"
  shows "number_from 0 (two_digits n) = Some n"
proof -
  have e: "number_from 0 (two_digits n) = Some (10 * (10 * 0 + (n div 10) mod 10) + n mod 10)"
    by (simp only: two_digits_def number_from.simps digit_value_digit option.case)
  have a: "(n div 10) mod 10 = n div 10" using assms by (intro small_div_mod) simp_all
  have "10 * (10 * 0 + (n div 10) mod 10) + n mod 10 = 10 * (n div 10) + n mod 10"
    by (simp only: a mult_zero_right add_0_left)
  also have "\<dots> = n" by (rule decimal_step [symmetric])
  finally show ?thesis by (simp only: e)
qed

lemma number_from_four_digits:
  assumes "0 \<le> n" "n < 10000"
  shows "number_from 0 (four_digits n) = Some n"
proof -
  have e: "number_from 0 (four_digits n) =
      Some (10 * (10 * (10 * (10 * 0 + (n div 1000) mod 10) + (n div 100) mod 10) + (n div 10) mod 10) + n mod 10)"
    by (simp only: four_digits_def number_from.simps digit_value_digit option.case)
  have a: "(n div 1000) mod 10 = n div 1000" using assms by (intro small_div_mod) simp_all
  have "n div 100 div 10 = n div 1000" using zdiv_zmult2_eq [of 10 n 100] by simp
  then have b: "10 * (n div 1000) + (n div 100) mod 10 = n div 100"
    using decimal_step [of "n div 100"] by (simp only:)
  have "n div 10 div 10 = n div 100" using zdiv_zmult2_eq [of 10 n 10] by simp
  then have c: "10 * (n div 100) + (n div 10) mod 10 = n div 10"
    using decimal_step [of "n div 10"] by (simp only:)
  have d: "10 * (n div 10) + n mod 10 = n" by (rule decimal_step [symmetric])
  show ?thesis
    by (simp only: e mult_zero_right add_0_left a b c d)
qed

lemma days_in_month_le: "days_in_month y m \<le> 31"
  by (simp add: days_in_month_def)

lemma strftime_shape:
  "length (strftime_Y_m_d new_date) = 10"
  "strftime_Y_m_d new_date ! 4 = CHR ''-''"
  "strftime_Y_m_d new_date ! 7 = CHR ''-''"
  "take 4 (strftime_Y_m_d new_date) = four_digits (year new_date)"
  "take 2 (drop 5 (strftime_Y_m_d new_date)) = two_digits (month new_date)"
  "drop 8 (strftime_Y_m_d new_date) = two_digits (day new_date)"
  by (simp_all add: strftime_Y_m_d_def four_digits_def two_digits_def)

lemma to_datetime_strftime:
  assumes "valid_date new_date"
  shows "to_datetime_Y_m_d (strftime_Y_m_d new_date) = Some (Timestamp_of new_date)"
proof -
  from assms have y: "0 \<le> year new_date" "year new_date < 10000"
    and m: "0 \<le> month new_date" "month new_date < 100"
    and d: "0 \<le> day new_date" "day new_date < 100"
    using days_in_month_le [of "year new_date" "month new_date"]
    by (simp_all add: valid_date_def)
  have v: "valid_date \<lparr>year = year new_date, month = month new_date, day = day new_date\<rparr>"
    using assms by (simp add: valid_date_def)
  show ?thesis
    unfolding to_datetime_Y_m_d_def
    by (simp add: strftime_shape number_from_four_digits [OF y] number_from_two_digits [OF m]
        number_from_two_digits [OF d] v Timestamp_of_def)
qed

lemma to_datetime_mixed_enumerate:
  "to_datetime_mixed parse (enumerate n rows) =
     (if list_ex (unreadable parse) rows then None
      else Some (enumerate n (map (loaded_from parse) rows)))"
proof (induction rows arbitrary: n)
  case Nil
  show ?case by simp
next
  case (Cons r rows)
  show ?case
  proof (cases "raw_Date r")
    case None
    then show ?thesis
      by (simp add: Cons.IH to_datetime_cell_def unreadable_def [of parse r]
          loaded_from_def [of parse r])
  next
    case (Some s)
    then show ?thesis
      by (cases "parse s")
        (simp_all add: Cons.IH to_datetime_cell_def unreadable_def [of parse r]
          loaded_from_def [of parse r])
  qed
qed

lemma load_data_Some:
  "load_data parse (Some rows) =
     (if list_ex (unreadable parse) rows then Inl Load_error
      else Inr (enumerate 0 (map (loaded_from parse) rows)))"
  by (simp add: load_data_def read_csv_def to_datetime_mixed_enumerate)

lemma load_data_None: "load_data parse None = Inl File_not_found"
  by (simp add: load_data_def read_csv_def)

lemma add_new_activity_form_writes:
  "add_new_activity_form (Some rows) new_date new_category new_hours =
     (Some (rows @ [\<lparr>raw_Date = Some (strftime_Y_m_d new_date), raw_Category = new_category,
                      raw_Hours = new_hours\<rparr>]), Added)"
  by (simp add: add_new_activity_form_def read_csv_def concat_ignore_index_def to_csv_raw_def Let_def)

lemma add_new_activity_form_no_file:
  "add_new_activity_form None new_date new_category new_hours = (None, Csv_read_error)"
  by (simp add: add_new_activity_form_def read_csv_def)

text \<open>The example logs, step by step through a load and a delete of position 0.\<close>

lemma to_datetime_examples:
  "to_datetime_Y_m_d ''2024-01-01'' = Some 19723"
  "to_datetime_Y_m_d ''2024-01-03'' = Some 19725"
  "to_datetime_Y_m_d ''2024-01-05'' = Some 19727"
  "to_datetime_Y_m_d ''someday'' = None"
  by code_simp+

lemma Timestamp_text_examples:
  "Timestamp_text 19725 = ''2024-01-03''"
  "Timestamp_text 19727 = ''2024-01-05''"
  by code_simp+

lemma jan_log_loads:
  "load_data to_datetime_Y_m_d jan_log = Inr [(0, loaded jan_01), (1, loaded jan_03), (2, loaded jan_05)]"
  by (simp add: jan_log_def load_data_Some unreadable_def loaded_from_def to_datetime_examples
      loaded_def jan_01_def jan_03_def jan_05_def)

lemma jan_log_sorted:
  "sort_values_Date_descending [(0, loaded jan_01), (1, loaded jan_03), (2, loaded jan_05)]
     = [(2, loaded jan_05), (1, loaded jan_03), (0, loaded jan_01)]"
  by (simp add: sort_values_Date_descending_def loaded_def jan_01_def jan_03_def jan_05_def)

lemma jan_log_dropped:
  "drop_labels [(2, loaded jan_05), (1, loaded jan_03), (0, loaded jan_01)] [0]
     = Some [(2, loaded jan_05), (1, loaded jan_03)]"
  by (simp add: drop_labels_def)

lemma jan_log_rewritten:
  "to_csv [(2, loaded jan_05), (1, loaded jan_03)] = Some
     [\<lparr>raw_Date = Some ''2024-01-05'', raw_Category = ''B'', raw_Hours = 3\<rparr>,
      \<lparr>raw_Date = Some ''2024-01-03'', raw_Category = ''A'', raw_Hours = 1\<rparr>]"
  by (simp add: to_csv_def loaded_def jan_03_def jan_05_def Timestamp_text_examples)

lemma jan_log_deleted:
  "delete_form to_datetime_Y_m_d jan_log [0] =
     (Some [\<lparr>raw_Date = Some ''2024-01-05'', raw_Category = ''B'', raw_Hours = 3\<rparr>,
            \<lparr>raw_Date = Some ''2024-01-03'', raw_Category = ''A'', raw_Hours = 1\<rparr>], Deleted 1)"
  unfolding delete_form_def jan_log_loads sum.case Let_def jan_log_sorted jan_log_dropped
    option.case jan_log_rewritten
  by simp

lemma jan_log_reloaded:
  "load_data to_datetime_Y_m_d (Some
     [\<lparr>raw_Date = Some ''2024-01-05'', raw_Category = ''B'', raw_Hours = 3\<rparr>,
      \<lparr>raw_Date = Some ''2024-01-03'', raw_Category = ''A'', raw_Hours = 1\<rparr>])
   = Inr [(0, loaded jan_05), (1, loaded jan_03)]"
  by (simp add: load_data_Some unreadable_def loaded_from_def to_datetime_examples
      loaded_def jan_03_def jan_05_def)

lemma jan_log_displayed:
  "displayed to_datetime_Y_m_d jan_log = Inr [(0, loaded jan_05), (1, loaded jan_03), (2, loaded jan_01)]"
  unfolding displayed_def jan_log_loads map_sum.simps jan_log_sorted df_display_def
    reset_index_drop_def
  by (simp add: numeral_2_eq_2)

text \<open>
  C3. When the file loads to the sequence \<open>S\<close>, the new date is a date of the calendar
  in the years 1678 to 2261 and the reader of dates reads the texts of the form \<^verbatim>\<open>YYYY-MM-DD\<close> as
  \<open>to_datetime_Y_m_d\<close> does, then loading after the submission of the form gives \<open>S\<close>
  with the new activity as its last element, dated with the timestamp of the new date;
  the file written is the whole previous file followed by the row of the new activity.
\<close>

theorem load_after_add_appends:
  assumes "records (load_data parse file) = Inr S"
    and "valid_date new_date"
    and "\<And>s t. to_datetime_Y_m_d s = Some t \<Longrightarrow> parse s = Some t"
  shows "records (load_data parse (fst (add_new_activity_form file new_date new_category new_hours)))
           = Inr (S @ [\<lparr>Date = Some (Timestamp_of new_date), Category = new_category,
                          Hours = new_hours\<rparr>])
         \<and> fst (add_new_activity_form file new_date new_category new_hours)
           = map_option (\<lambda>rows. rows @ [\<lparr>raw_Date = Some (strftime_Y_m_d new_date),
                 raw_Category = new_category, raw_Hours = new_hours\<rparr>]) file"
proof -
  from assms(1) obtain rows where f: "file = Some rows"
    by (cases "file") (simp_all add: records_def load_data_None)
  from assms(1) have ok: "\<not> list_ex (unreadable parse) rows"
    and S: "S = map (loaded_from parse) rows"
    by (auto simp: f records_def load_data_Some split: if_splits)
  have "parse (strftime_Y_m_d new_date) = Some (Timestamp_of new_date)"
    using assms(2) by (intro assms(3) to_datetime_strftime)
  then show ?thesis
    using ok
    by (simp add: f S add_new_activity_form_writes load_data_Some records_def unreadable_def
        loaded_from_def)
qed

theorem load_after_add_appends_witness:
  "records (load_data to_datetime_Y_m_d jan_log) = Inr (map loaded [jan_01, jan_03, jan_05])
   \<and> valid_date \<lparr>year = 2024, month = 2, day = 1\<rparr>
   \<and> Timestamp_of \<lparr>year = 2024, month = 2, day = 1\<rparr> = 19754
   \<and> records (load_data to_datetime_Y_m_d
         (fst (add_new_activity_form jan_log \<lparr>year = 2024, month = 2, day = 1\<rparr> ''C'' 5)))
       = Inr (map loaded [jan_01, jan_03, jan_05, \<lparr>Date = 19754, Category = ''C'', Hours = 5\<rparr>])"
proof -
  have h1: "records (load_data to_datetime_Y_m_d jan_log) = Inr (map loaded [jan_01, jan_03, jan_05])"
    unfolding jan_log_loads by (simp add: records_def)
  have h2: "valid_date \<lparr>year = 2024, month = 2, day = 1\<rparr>"
    by (simp add: valid_date_def days_in_month_def)
  have t: "Timestamp_of \<lparr>year = 2024, month = 2, day = 1\<rparr> = 19754"
    by (simp add: Timestamp_of_def days_from_civil_def)
  have h3: "\<And>s t. to_datetime_Y_m_d s = Some t \<Longrightarrow> to_datetime_Y_m_d s = Some t" .
  show ?thesis
    using h1 h2 t load_after_add_appends [OF h1 h2 h3, of "''C''" 5, THEN conjunct1]
    by (simp add: loaded_def)
qed

text \<open>
  C4, as the code has it. \<^verbatim>\<open>load_data\<close> returns no frame when the file does not exist,
  and when some row has a date text on which \<^verbatim>\<open>to_datetime\<close> raises, whatever the other
  rows hold. In every other case it returns all rows of the file in their order, a row
  with an empty \<^verbatim>\<open>Date\<close> cell among them with a missing date.
\<close>

theorem load_fails_on_text_only:
  "load_data parse None = Inl File_not_found
   \<and> load_data parse (Some rows) =
       (if list_ex (unreadable parse) rows then Inl Load_error
        else Inr (enumerate 0 (map (loaded_from parse) rows)))"
  by (simp add: load_data_None load_data_Some)

theorem load_fails_on_text_only_witness:
  "load_data to_datetime_Y_m_d None = Inl File_not_found
   \<and> load_data to_datetime_Y_m_d broken_log = Inl Load_error
   \<and> load_data to_datetime_Y_m_d jan_log
       = Inr [(0, loaded jan_01), (1, loaded jan_03), (2, loaded jan_05)]"
  using load_fails_on_text_only [of to_datetime_Y_m_d "[]"]
    load_fails_on_text_only [of to_datetime_Y_m_d
      "[\<lparr>raw_Date = Some ''2024-01-01'', raw_Category = ''A'', raw_Hours = 2\<rparr>,
        \<lparr>raw_Date = Some ''someday'', raw_Category = ''A'', raw_Hours = 1\<rparr>]"]
  by (simp add: broken_log_def unreadable_def to_datetime_examples jan_log_loads)

text \<open>
  C4, as the specification states it, fails: the second row of this file has an empty
  \<^verbatim>\<open>Date\<close> cell, so it has no date that could be read, and \<^verbatim>\<open>load_data\<close> returns
  both rows, the second one with a missing date.
\<close>

theorem missing_date_counterexample:
  "undated_log = Some
     [\<lparr>raw_Date = Some ''2024-01-01'', raw_Category = ''A'', raw_Hours = 2\<rparr>,
      \<lparr>raw_Date = None, raw_Category = ''A'', raw_Hours = 1\<rparr>]
   \<and> load_data to_datetime_Y_m_d undated_log =
       Inr [(0, \<lparr>Date = Some 19723, Category = ''A'', Hours = 2\<rparr>),
            (1, \<lparr>Date = None, Category = ''A'', Hours = 1\<rparr>)]"
  by (simp add: undated_log_def load_data_Some unreadable_def loaded_from_def to_datetime_examples)

text \<open>
  C10. A delete request that selects no position leaves the file as it is.
\<close>

theorem delete_nothing_keeps_file:
  "fst (delete_form parse file []) = file"
  by (simp add: delete_form_def Let_def split: sum.splits)

text \<open>
  C1 on a concrete log. The file holds the activities of 2024-01-01, 2024-01-03 and
  2024-01-05 in this order; the table on display shows them by descending date, with
  2024-01-05 at position 0. Deleting position 0 removes the row that stands first in the
  file, the activity of 2024-01-01, and the next load gives 2024-01-05 and 2024-01-03.
  The elements of the displayed sequence at the positions other than 0 are 2024-01-03 and
  2024-01-01.
\<close>

theorem delete_uses_file_labels:
  "records (load_data to_datetime_Y_m_d jan_log) = Inr (map loaded [jan_01, jan_03, jan_05])
   \<and> records (displayed to_datetime_Y_m_d jan_log) = Inr (map loaded [jan_05, jan_03, jan_01])
   \<and> records (load_data to_datetime_Y_m_d (fst (delete_form to_datetime_Y_m_d jan_log [0])))
       = Inr (map loaded [jan_05, jan_03])
   \<and> at_positions_not_in [0] [jan_05, jan_03, jan_01] = [jan_03, jan_01]
   \<and> at_positions_not_in [0] [jan_01, jan_03, jan_05] = [jan_03, jan_05]"
  unfolding jan_log_deleted fst_conv jan_log_reloaded jan_log_loads jan_log_displayed
  by (simp add: records_def at_positions_not_in_def)

end
